theory Spec2Isabelle
  imports Main "HOL-Library.AList"
begin

section \<open>JavaScript values\<close>

text \<open>
  The functions of \<^verbatim>\<open>stackAnalysis.ts\<close> take untyped parameters and read properties of
  imported objects, so the values they handle are JavaScript values. The fragment needed
  here: \<^verbatim>\<open>undefined\<close>, \<^verbatim>\<open>null\<close>, booleans, strings and object references (an object
  is identified by its reference, so two references are the same object exactly when
  they are equal).
\<close>

datatype jsval = Undefined | Null | Bool bool | Str string | Obj nat

text \<open>Truthiness, as tested by \<^verbatim>\<open>if (v)\<close>, \<^verbatim>\<open>v && w\<close> and \<^verbatim>\<open>v || w\<close>.\<close>

fun truthy :: "jsval \<Rightarrow> bool" where
  "truthy Undefined = False"
| "truthy Null = False"
| "truthy (Bool b) = b"
| "truthy (Str s) = (s \<noteq> [])"
| "truthy (Obj r) = True"

text \<open>\<^verbatim>\<open>a || b\<close>: the left operand when it is truthy, the right one otherwise.\<close>

definition js_or :: "jsval \<Rightarrow> jsval \<Rightarrow> jsval" where
  "js_or a b = (if truthy a then a else b)"

text \<open>
  The string a template literal \<^verbatim>\<open>`${v}`\<close> inserts for a value. An object is converted by
  its own \<^verbatim>\<open>toString\<close>; the default one is used here (no object reaches a template
  literal in this file, see \<open>generateRHDAReport\<close>).
\<close>

fun ToString :: "jsval \<Rightarrow> string" where
  "ToString Undefined = ''undefined''"
| "ToString Null = ''null''"
| "ToString (Bool b) = (if b then ''true'' else ''false'')"
| "ToString (Str s) = s"
| "ToString (Obj r) = ''[object Object]''"

text \<open>
  How a promise obtained from a collaborator ends: fulfilled with a value, rejected with
  a reason, or never settled. A call to a collaborator either throws before it returns,
  or returns a promise.
\<close>

datatype 'a outcome = Fulfilled 'a | Rejected jsval | Pending

datatype call = Throws jsval | Returns "jsval outcome"

section \<open>Configuration, option bag, events\<close>

text \<open>The properties of \<^verbatim>\<open>globalConfig\<close> that the file reads.\<close>

record config =
  telemetryId :: jsval
  utmSource :: jsval
  matchManifestVersions :: jsval
  exhortMvnPath :: jsval
  exhortNpmPath :: jsval
  exhortGoPath :: jsval
  exhortPython3Path :: jsval
  exhortPip3Path :: jsval
  exhortPythonPath :: jsval
  exhortPipPath :: jsval
  exhortSnykToken :: jsval
  exhortOSSIndexUser :: jsval
  exhortOSSIndexToken :: jsval
  rhdaReportFilePath :: jsval

text \<open>
  The option bag is a JavaScript object: an association list in insertion order, where
  the assignment \<^verbatim>\<open>options[k] = v\<close> is \<^const>\<open>AList.update\<close> (it replaces the value of an
  existing key and appends a new one).
\<close>

type_synonym options = "(string \<times> jsval) list"

definition has_key :: "options \<Rightarrow> string \<Rightarrow> bool" where
  "has_key opts k = (k \<in> fst ` set opts)"

type_synonym panel = nat

text \<open>The members of \<^verbatim>\<open>StatusMessages\<close> that are reported (their texts are not in this file).\<close>

datatype status_message =
    WIN_ANALYZING_DEPENDENCIES
  | WIN_GENERATING_DEPENDENCIES
  | WIN_SUCCESS_DEPENDENCY_ANALYSIS
  | WIN_FAILURE_DEPENDENCY_ANALYSIS

text \<open>
  What the workflow does to its collaborators, in the order it does it:
  \<^item> \<open>AuthorizeRHDA context\<close>: \<^verbatim>\<open>globalConfig.authorizeRHDA(context)\<close>;
  \<^item> \<open>CreateOrShowWebviewPanel\<close>: \<^verbatim>\<open>DependencyReportPanel.createOrShowWebviewPanel()\<close>;
  \<^item> \<open>WithProgress\<close>: \<^verbatim>\<open>vscode.window.withProgress\<close> opens the progress scope;
  \<^item> \<open>Report m\<close>: \<^verbatim>\<open>p.report({ message: m })\<close>;
  \<^item> \<open>StackAnalysisService path options\<close>: the call of the analysis service;
  \<^item> \<open>MkdirSync dir recursive\<close>: \<^verbatim>\<open>fs.mkdirSync(dir, { recursive })\<close>;
  \<^item> \<open>WriteFile file data\<close>: \<^verbatim>\<open>fs.writeFile(file, data, callback)\<close>;
  \<^item> \<open>DoUpdatePanel panel data\<close>: \<^verbatim>\<open>doUpdatePanel(data)\<close> on the panel;
  \<^item> \<open>ShowInformationMessage text\<close>: \<^verbatim>\<open>vscode.window.showInformationMessage(text)\<close>.
\<close>

datatype event =
    AuthorizeRHDA jsval
  | CreateOrShowWebviewPanel
  | WithProgress
  | Report status_message
  | StackAnalysisService jsval options
  | MkdirSync string bool
  | WriteFile string jsval
  | DoUpdatePanel panel jsval
  | ShowInformationMessage string

section \<open>The collaborators and the state\<close>

text \<open>
  Everything the file imports and does not define is a parameter of the model:
  \<^item> \<open>globalConfig\<close> and \<open>defaultRhdaReportFilePath\<close>: the configuration and the constant of
    \<^verbatim>\<open>./constants\<close>;
  \<^item> \<open>optionsFault\<close>: the exception that is thrown while \<^verbatim>\<open>executeStackAnalysis\<close> builds the
    option bag (lines 68 to 88), if any: the properties of \<^verbatim>\<open>globalConfig\<close> that are read
    there may be accessors, and an accessor can throw;
  \<^item> \<open>basename\<close>, \<open>dirname\<close>: Node's \<^verbatim>\<open>path.basename\<close> and \<^verbatim>\<open>path.dirname\<close> on strings;
    on any other argument they throw the \<^verbatim>\<open>TypeError\<close> \<open>ERR_INVALID_ARG_TYPE\<close>;
  \<^item> \<open>authorizeRHDA context\<close>: how the promise of \<^verbatim>\<open>globalConfig.authorizeRHDA\<close> ends
    (\<^verbatim>\<open>triggerWebviewPanel\<close> is an \<^verbatim>\<open>async\<close> function, so a synchronous throw of the call
    is a rejection as well);
  \<^item> \<open>newPanel\<close>: the panel that is created when none is current;
  \<^item> \<open>stackAnalysisService path options\<close>: what the analysis service does;
  \<^item> \<open>mkdirSync dir recursive\<close>: the exception \<^verbatim>\<open>fs.mkdirSync(dir, { recursive })\<close> throws,
    if any;
  \<^item> \<open>writeFile file data\<close>: the \<^verbatim>\<open>err\<close> that \<^verbatim>\<open>fs.writeFile\<close> passes to its callback
    (\<^verbatim>\<open>null\<close> when the file was written);
  \<^item> \<open>whileAuthorizing\<close>, \<open>whileAnalyzing\<close>, \<open>whileWriting\<close>: what the other tasks of the
    event loop (the user closing or reopening the report) do to
    \<^verbatim>\<open>DependencyReportPanel.currentPanel\<close> while the workflow waits for the authorization,
    for the analysis service and for the file to be written. The spec names this case:
    the panel's "existence is checked defensively (no assumption it persists across the
    async gap between analysis start and completion)", "e.g. if the user closed it
    mid-run".

  The calls that only show something (\<^verbatim>\<open>p.report\<close>, \<^verbatim>\<open>doUpdatePanel\<close>,
  \<^verbatim>\<open>showInformationMessage\<close>, \<^verbatim>\<open>createOrShowWebviewPanel\<close>, \<^verbatim>\<open>withProgress\<close> itself) are taken
  to return normally, and \<^verbatim>\<open>fs.writeFile\<close> to call its callback.
\<close>

record environment =
  globalConfig :: config
  optionsFault :: "jsval option"
  defaultRhdaReportFilePath :: string
  basename :: "string \<Rightarrow> string"
  dirname :: "string \<Rightarrow> string"
  ERR_INVALID_ARG_TYPE :: jsval
  authorizeRHDA :: "jsval \<Rightarrow> jsval outcome"
  newPanel :: panel
  stackAnalysisService :: "jsval \<Rightarrow> options \<Rightarrow> call"
  mkdirSync :: "string \<Rightarrow> bool \<Rightarrow> jsval option"
  writeFile :: "string \<Rightarrow> jsval \<Rightarrow> jsval"
  whileAuthorizing :: "panel option \<Rightarrow> panel option"
  whileAnalyzing :: "panel option \<Rightarrow> panel option"
  whileWriting :: "panel option \<Rightarrow> panel option"

text \<open>
  The state the workflow reads and changes: the static \<^verbatim>\<open>DependencyReportPanel.currentPanel\<close>,
  the file system (which paths exist, and what the files hold), and the events so far.
\<close>

datatype entry = Directory | File jsval

record state =
  currentPanel :: "panel option"
  disk :: "string \<rightharpoonup> entry"
  trace :: "event list"

definition emit :: "event \<Rightarrow> state \<Rightarrow> state" where
  "emit e s = s\<lparr>trace := trace s @ [e]\<rparr>"

text \<open>The events of a run that takes the state \<open>s\<close> to the state \<open>s'\<close>.\<close>

definition events_since :: "state \<Rightarrow> state \<Rightarrow> event list" where
  "events_since s s' = drop (length (trace s)) (trace s')"

section \<open>The functions of stackAnalysis.ts\<close>

definition supportedFiles :: "string list" where
  "supportedFiles = [''pom.xml'', ''package.json'', ''go.mod'', ''requirements.txt'']"

text \<open>\<^verbatim>\<open>updateWebviewPanel(data)\<close>: the panel is updated only if one is current.\<close>

definition updateWebviewPanel :: "jsval \<Rightarrow> state \<Rightarrow> state" where
  "updateWebviewPanel data s =
     (case currentPanel s of
        Some p \<Rightarrow> emit (DoUpdatePanel p data) s
      | None \<Rightarrow> s)"

text \<open>\<^verbatim>\<open>fs.existsSync(p)\<close>.\<close>

definition existsSync :: "state \<Rightarrow> string \<Rightarrow> bool" where
  "existsSync s p = (disk s p \<noteq> None)"

text \<open>
  The directories above a path: \<^verbatim>\<open>path.dirname\<close> applied again and again, until it returns
  its argument (the root, or \<^verbatim>\<open>.\<close>). A step drops at least one character or ends at \<^verbatim>\<open>.\<close>, so
  one step for each character of the path and one more reach the end.
\<close>

fun parents :: "(string \<Rightarrow> string) \<Rightarrow> nat \<Rightarrow> string \<Rightarrow> string list" where
  "parents dn 0 p = []"
| "parents dn (Suc n) p = (if dn p = p then [] else dn p # parents dn n (dn p))"

definition ancestors :: "environment \<Rightarrow> string \<Rightarrow> string list" where
  "ancestors env p = parents (dirname env) (Suc (length p)) p"

text \<open>The paths of \<open>ps\<close> that do not exist become directories; what exists is left as it is.\<close>

definition make_directories :: "string list \<Rightarrow> (string \<rightharpoonup> entry) \<Rightarrow> (string \<rightharpoonup> entry)" where
  "make_directories ps m = (\<lambda>p. if p \<in> set ps \<and> m p = None then Some Directory else m p)"

text \<open>
  \<^verbatim>\<open>fs.mkdirSync(d, { recursive })\<close>: unless it throws, it creates the directory, and with
  \<^verbatim>\<open>recursive: true\<close> every missing directory above it as well.
\<close>

definition fs_mkdirSync ::
    "environment \<Rightarrow> string \<Rightarrow> bool \<Rightarrow> state \<Rightarrow> jsval option \<times> state" where
  "fs_mkdirSync env d recursive s =
     (let s1 = emit (MkdirSync d recursive) s in
      case mkdirSync env d recursive of
        Some err \<Rightarrow> (Some err, s1)
      | None \<Rightarrow>
          (None,
           s1\<lparr>disk := make_directories ((if recursive then ancestors env d else []) @ [d])
                         (disk s1)\<rparr>))"

text \<open>\<^verbatim>\<open>fs.writeFile(f, data, callback)\<close>: the result is the \<^verbatim>\<open>err\<close> given to the callback.\<close>

definition fs_writeFile :: "environment \<Rightarrow> string \<Rightarrow> jsval \<Rightarrow> state \<Rightarrow> jsval \<times> state" where
  "fs_writeFile env f data s =
     (let s1 = emit (WriteFile f data) s;
          s2 = s1\<lparr>currentPanel := whileWriting env (currentPanel s1)\<rparr>;
          err = writeFile env f data
      in (err, if truthy err then s2 else s2\<lparr>disk := (disk s2)(f \<mapsto> File data)\<rparr>))"

text \<open>
  \<^verbatim>\<open>globalConfig.rhdaReportFilePath || defaultRhdaReportFilePath\<close>, the first line of the
  executor in \<^verbatim>\<open>writeReportToFile\<close>.
\<close>

definition reportFilePath :: "environment \<Rightarrow> jsval" where
  "reportFilePath env =
     js_or (rhdaReportFilePath (globalConfig env)) (Str (defaultRhdaReportFilePath env))"

text \<open>
  \<^verbatim>\<open>writeReportToFile(data)\<close>. An exception in the executor of a promise (from
  \<^verbatim>\<open>path.dirname\<close> or from \<^verbatim>\<open>fs.mkdirSync\<close>) rejects the promise with that exception.
\<close>

definition writeReportToFile :: "environment \<Rightarrow> jsval \<Rightarrow> state \<Rightarrow> unit outcome \<times> state" where
  "writeReportToFile env data s =
     (case reportFilePath env of
        Str f \<Rightarrow>
          (let reportDirectoryPath = dirname env f;
               (thrown, s1) =
                  (if \<not> existsSync s reportDirectoryPath
                   then fs_mkdirSync env reportDirectoryPath True s
                   else (None, s))
           in case thrown of
                Some err \<Rightarrow> (Rejected err, s1)
              | None \<Rightarrow>
                  (let (err, s2) = fs_writeFile env f data s1
                   in if truthy err then (Rejected err, s2) else (Fulfilled (), s2)))
      | _ \<Rightarrow> (Rejected (ERR_INVALID_ARG_TYPE env), s))"

text \<open>The option bag that \<^verbatim>\<open>executeStackAnalysis\<close> builds (lines 68 to 88).\<close>

definition stackAnalysisOptions :: "config \<Rightarrow> options" where
  "stackAnalysisOptions c =
     (let options =
            [(''RHDA_TOKEN'', telemetryId c),
             (''RHDA_SOURCE'', utmSource c),
             (''MATCH_MANIFEST_VERSIONS'', matchManifestVersions c),
             (''EXHORT_MVN_PATH'', exhortMvnPath c),
             (''EXHORT_NPM_PATH'', exhortNpmPath c),
             (''EXHORT_GO_PATH'', exhortGoPath c),
             (''EXHORT_PYTHON3_PATH'', exhortPython3Path c),
             (''EXHORT_PIP3_PATH'', exhortPip3Path c),
             (''EXHORT_PYTHON_PATH'', exhortPythonPath c),
             (''EXHORT_PIP_PATH'', exhortPipPath c)];
          options =
            (if exhortSnykToken c \<noteq> Str ''''
             then AList.update ''EXHORT_SNYK_TOKEN'' (exhortSnykToken c) options
             else options);
          options =
            (if exhortOSSIndexUser c \<noteq> Str '''' \<and> exhortOSSIndexToken c \<noteq> Str ''''
             then AList.update ''EXHORT_OSS_INDEX_TOKEN'' (exhortOSSIndexToken c)
                    (AList.update ''EXHORT_OSS_INDEX_USER'' (exhortOSSIndexUser c) options)
             else options)
      in options)"

text \<open>
  \<^verbatim>\<open>executeStackAnalysis(manifestFilePath)\<close>. \<^verbatim>\<open>withProgress\<close> returns the promise of its
  task, and the outer \<^verbatim>\<open>try\<close>/\<^verbatim>\<open>catch\<close> rethrows what it catches, so the result is the
  result of the promise built in the task:
  \<^item> an exception thrown before the service has returned its promise, while the option
    bag is built or by the call of the service itself, is caught by the inner \<^verbatim>\<open>catch\<close>
    (line 113);
  \<^item> a rejection of the service skips the \<^verbatim>\<open>then\<close> callback and reaches the \<^verbatim>\<open>catch\<close>
    callback (line 106);
  \<^item> a rejection of \<^verbatim>\<open>writeReportToFile\<close> rejects the promise of the \<^verbatim>\<open>then\<close> callback and
    reaches the same \<^verbatim>\<open>catch\<close> callback;
  \<^item> if the service never settles, neither callback runs.
\<close>

definition executeStackAnalysis :: "environment \<Rightarrow> jsval \<Rightarrow> state \<Rightarrow> unit outcome \<times> state" where
  "executeStackAnalysis env manifestFilePath s =
     (let s1 = emit (Report WIN_ANALYZING_DEPENDENCIES) (emit WithProgress s) in
      case optionsFault env of
        Some err \<Rightarrow> (Rejected err, emit (Report WIN_ANALYZING_DEPENDENCIES) s1)
      | None \<Rightarrow>
     (let options = stackAnalysisOptions (globalConfig env);
          s2 = emit (StackAnalysisService manifestFilePath options) s1
      in case stackAnalysisService env manifestFilePath options of
           Throws err \<Rightarrow> (Rejected err, emit (Report WIN_ANALYZING_DEPENDENCIES) s2)
         | Returns Pending \<Rightarrow> (Pending, s2)
         | Returns (Rejected err) \<Rightarrow>
             (let s3 = s2\<lparr>currentPanel := whileAnalyzing env (currentPanel s2)\<rparr>
              in (Rejected err, emit (Report WIN_FAILURE_DEPENDENCY_ANALYSIS) s3))
         | Returns (Fulfilled resp) \<Rightarrow>
             (let s3 = s2\<lparr>currentPanel := whileAnalyzing env (currentPanel s2)\<rparr>;
                  s4 = emit (Report WIN_GENERATING_DEPENDENCIES) s3
              in case writeReportToFile env resp s4 of
                   (Fulfilled u, s5) \<Rightarrow>
                     (Fulfilled (),
                      emit (Report WIN_SUCCESS_DEPENDENCY_ANALYSIS) (updateWebviewPanel resp s5))
                 | (Rejected err, s5) \<Rightarrow>
                     (Rejected err, emit (Report WIN_FAILURE_DEPENDENCY_ANALYSIS) s5)
                 | (Pending, s5) \<Rightarrow> (Pending, s5))))"

text \<open>
  Modelled from the spec: \<^verbatim>\<open>DependencyReportPanel.createOrShowWebviewPanel\<close> is not in this
  file. The spec calls it the "show/create panel operation" that will "show (or reuse) the
  display panel": the current panel is kept when there is one, a new panel becomes
  current otherwise.
\<close>

definition createOrShowWebviewPanel :: "environment \<Rightarrow> state \<Rightarrow> state" where
  "createOrShowWebviewPanel env s =
     (let s1 = emit CreateOrShowWebviewPanel s in
      case currentPanel s1 of
        Some p \<Rightarrow> s1
      | None \<Rightarrow> s1\<lparr>currentPanel := Some (newPanel env)\<rparr>)"

text \<open>\<^verbatim>\<open>triggerWebviewPanel(context)\<close>.\<close>

definition triggerWebviewPanel :: "environment \<Rightarrow> jsval \<Rightarrow> state \<Rightarrow> unit outcome \<times> state" where
  "triggerWebviewPanel env context s =
     (let s1 = emit (AuthorizeRHDA context) s in
      case authorizeRHDA env context of
        Fulfilled v \<Rightarrow>
          (Fulfilled (),
           createOrShowWebviewPanel env (s1\<lparr>currentPanel := whileAuthorizing env (currentPanel s1)\<rparr>))
      | Rejected err \<Rightarrow>
          (Rejected err, s1\<lparr>currentPanel := whileAuthorizing env (currentPanel s1)\<rparr>)
      | Pending \<Rightarrow> (Pending, s1))"

record uri =
  fsPath :: jsval

text \<open>
  The guard of \<^verbatim>\<open>generateRHDAReport\<close>,
  \<^verbatim>\<open>uri.fsPath && supportedFiles.includes(path.basename(uri.fsPath))\<close>: \<open>Inl\<close> is the
  exception it throws, \<open>Inr\<close> the branch it selects. The right operand of \<^verbatim>\<open>&&\<close> is
  evaluated only when the left one is truthy.
\<close>

definition isSupported :: "environment \<Rightarrow> jsval \<Rightarrow> jsval + bool" where
  "isSupported env p =
     (if truthy p
      then (case p of
              Str f \<Rightarrow> Inr (basename env f \<in> set supportedFiles)
            | _ \<Rightarrow> Inl (ERR_INVALID_ARG_TYPE env))
      else Inr False)"

text \<open>\<^verbatim>\<open>generateRHDAReport(context, uri)\<close>.\<close>

definition generateRHDAReport ::
    "environment \<Rightarrow> jsval \<Rightarrow> uri \<Rightarrow> state \<Rightarrow> unit outcome \<times> state" where
  "generateRHDAReport env context u s =
     (case isSupported env (fsPath u) of
        Inl err \<Rightarrow> (Rejected err, s)
      | Inr True \<Rightarrow>
          (case triggerWebviewPanel env context s of
             (Fulfilled v, s1) \<Rightarrow>
               (case executeStackAnalysis env (fsPath u) s1 of
                  (Rejected error, s2) \<Rightarrow> (Rejected error, updateWebviewPanel (Str ''error'') s2)
                | (Fulfilled w, s2) \<Rightarrow> (Fulfilled (), s2)
                | (Pending, s2) \<Rightarrow> (Pending, s2))
           | (Rejected error, s1) \<Rightarrow> (Rejected error, updateWebviewPanel (Str ''error'') s1)
           | (Pending, s1) \<Rightarrow> (Pending, s1))
      | Inr False \<Rightarrow>
          (Fulfilled (),
           emit (ShowInformationMessage (''File '' @ ToString (fsPath u) @ '' is not supported!!'')) s))"

text \<open>
  The state in which \<^verbatim>\<open>executeStackAnalysis\<close> calls \<^verbatim>\<open>writeReportToFile\<close> (line 97), once the
  service has fulfilled its promise.
\<close>

definition beforeWrite :: "environment \<Rightarrow> jsval \<Rightarrow> state \<Rightarrow> state" where
  "beforeWrite env m s =
     emit (Report WIN_GENERATING_DEPENDENCIES)
       ((emit (StackAnalysisService m (stackAnalysisOptions (globalConfig env)))
          (emit (Report WIN_ANALYZING_DEPENDENCIES) (emit WithProgress s)))
         \<lparr>currentPanel := whileAnalyzing env (currentPanel s)\<rparr>)"

section \<open>Reading a run\<close>

text \<open>The progress messages, panel updates, service calls and notices among some events.\<close>

fun reports :: "event list \<Rightarrow> status_message list" where
  "reports [] = []"
| "reports (Report m # es) = m # reports es"
| "reports (e # es) = reports es"

fun panel_updates :: "event list \<Rightarrow> (panel \<times> jsval) list" where
  "panel_updates [] = []"
| "panel_updates (DoUpdatePanel p d # es) = (p, d) # panel_updates es"
| "panel_updates (e # es) = panel_updates es"

fun analysis_calls :: "event list \<Rightarrow> (jsval \<times> options) list" where
  "analysis_calls [] = []"
| "analysis_calls (StackAnalysisService m opts # es) = (m, opts) # analysis_calls es"
| "analysis_calls (e # es) = analysis_calls es"

fun information_messages :: "event list \<Rightarrow> string list" where
  "information_messages [] = []"
| "information_messages (ShowInformationMessage t # es) = t # information_messages es"
| "information_messages (e # es) = information_messages es"

text \<open>No call of the analysis service comes before the first call of the authorization.\<close>

fun authorized_before_analysis :: "event list \<Rightarrow> bool" where
  "authorized_before_analysis [] = True"
| "authorized_before_analysis (AuthorizeRHDA c # es) = True"
| "authorized_before_analysis (StackAnalysisService m opts # es) = False"
| "authorized_before_analysis (e # es) = authorized_before_analysis es"

text \<open>No update of the panel comes before the first \<^verbatim>\<open>fs.writeFile\<close>.\<close>

fun update_only_after_write :: "event list \<Rightarrow> bool" where
  "update_only_after_write [] = True"
| "update_only_after_write (WriteFile f d # es) = True"
| "update_only_after_write (DoUpdatePanel p d # es) = False"
| "update_only_after_write (e # es) = update_only_after_write es"

section \<open>An example installation\<close>

text \<open>
  Concrete collaborators on which the functions are run in the examples below:
  \<^verbatim>\<open>path.basename\<close> and \<^verbatim>\<open>path.dirname\<close> for POSIX paths, a configuration without
  credentials, a service that answers \<^verbatim>\<open>"R"\<close>, a file system without faults, and a user
  who leaves the report panel alone.
\<close>

definition posix_basename :: "string \<Rightarrow> string" where
  "posix_basename p =
     rev (takeWhile (\<lambda>c. c \<noteq> CHR ''/'') (dropWhile (\<lambda>c. c = CHR ''/'') (rev p)))"

text \<open>
  Node's \<^verbatim>\<open>path.posix.dirname\<close> scans the path from its end down to its second character:
  it skips the slashes at the end, then the last segment, and cuts the path at the slash
  it meets next, keeping what is before that slash. When it meets none the result is
  \<^verbatim>\<open>/\<close> for a path that starts with a slash and \<^verbatim>\<open>.\<close> otherwise; a cut right after a leading
  slash gives \<^verbatim>\<open>//\<close>.
\<close>

definition posix_dirname :: "string \<Rightarrow> string" where
  "posix_dirname p =
     (case p of
        [] \<Rightarrow> ''.''
      | c # cs \<Rightarrow>
          (case dropWhile (\<lambda>x. x \<noteq> CHR ''/'') (dropWhile (\<lambda>x. x = CHR ''/'') (rev cs)) of
             [] \<Rightarrow> if c = CHR ''/'' then ''/'' else ''.''
           | x # before \<Rightarrow> if c = CHR ''/'' \<and> before = [] then ''//'' else c # rev before))"

definition exampleConfig :: config where
  "exampleConfig =
     \<lparr>telemetryId = Str ''0123-4567'', utmSource = Str ''vscode'',
      matchManifestVersions = Bool True,
      exhortMvnPath = Str ''mvn'', exhortNpmPath = Str ''npm'', exhortGoPath = Str ''go'',
      exhortPython3Path = Str ''python3'', exhortPip3Path = Str ''pip3'',
      exhortPythonPath = Str ''python'', exhortPipPath = Str ''pip'',
      exhortSnykToken = Str '''', exhortOSSIndexUser = Str '''', exhortOSSIndexToken = Str '''',
      rhdaReportFilePath = Str ''/tmp/rhda/out/report.html''\<rparr>"

definition exampleEnvironment :: environment where
  "exampleEnvironment =
     \<lparr>globalConfig = exampleConfig,
      optionsFault = None,
      defaultRhdaReportFilePath = ''/tmp/redhatDependencyAnalyticsReport.html'',
      basename = posix_basename, dirname = posix_dirname,
      ERR_INVALID_ARG_TYPE = Obj 0,
      authorizeRHDA = (\<lambda>context. Fulfilled Undefined),
      newPanel = 1,
      stackAnalysisService = (\<lambda>manifestFilePath options. Returns (Fulfilled (Str ''R''))),
      mkdirSync = (\<lambda>dir recursive. None),
      writeFile = (\<lambda>file data. Null),
      whileAuthorizing = (\<lambda>panel. panel),
      whileAnalyzing = (\<lambda>panel. panel),
      whileWriting = (\<lambda>panel. panel)\<rparr>"

text \<open>The user closes the report while the analysis service is working.\<close>

definition reportClosedEnvironment :: environment where
  "reportClosedEnvironment = exampleEnvironment\<lparr>whileAnalyzing := (\<lambda>panel. None)\<rparr>"

text \<open>The analysis service rejects with the error object \<open>Obj 2\<close>.\<close>

definition failingAnalysisEnvironment :: environment where
  "failingAnalysisEnvironment =
     exampleEnvironment
       \<lparr>stackAnalysisService := (\<lambda>manifestFilePath options. Returns (Rejected (Obj 2)))\<rparr>"

text \<open>The call of the analysis service throws the error object \<open>Obj 4\<close>.\<close>

definition throwingAnalysisEnvironment :: environment where
  "throwingAnalysisEnvironment =
     exampleEnvironment\<lparr>stackAnalysisService := (\<lambda>manifestFilePath options. Throws (Obj 4))\<rparr>"

text \<open>Reading the configuration for the option bag throws the error object \<open>Obj 6\<close>.\<close>

definition throwingConfigEnvironment :: environment where
  "throwingConfigEnvironment = exampleEnvironment\<lparr>optionsFault := Some (Obj 6)\<rparr>"

text \<open>\<^verbatim>\<open>fs.writeFile\<close> fails with the error object \<open>Obj 3\<close>.\<close>

definition failingWriteEnvironment :: environment where
  "failingWriteEnvironment = exampleEnvironment\<lparr>writeFile := (\<lambda>file data. Obj 3)\<rparr>"

text \<open>\<^verbatim>\<open>fs.mkdirSync\<close> throws the error object \<open>Obj 5\<close>.\<close>

definition failingMkdirEnvironment :: environment where
  "failingMkdirEnvironment = exampleEnvironment\<lparr>mkdirSync := (\<lambda>dir recursive. Some (Obj 5))\<rparr>"

text \<open>A disk on which only \<^verbatim>\<open>/tmp\<close> exists.\<close>

definition tmpState :: state where
  "tmpState = \<lparr>currentPanel = None, disk = [''/tmp'' \<mapsto> Directory], trace = []\<rparr>"

text \<open>No panel, an empty disk, nothing done yet.\<close>

definition emptyState :: state where
  "emptyState = \<lparr>currentPanel = None, disk = Map.empty, trace = []\<rparr>"

definition pomUri :: uri where
  "pomUri = \<lparr>fsPath = Str ''/work/app/pom.xml''\<rparr>"

definition gradleUri :: uri where
  "gradleUri = \<lparr>fsPath = Str ''/work/app/build.gradle''\<rparr>"

section \<open>What each function does to the state\<close>

lemma emit_simps [simp]:
  "trace (emit e s) = trace s @ [e]"
  "currentPanel (emit e s) = currentPanel s"
  "disk (emit e s) = disk s"
  by (simp_all add: emit_def)

lemma projections_append [simp]:
  "panel_updates (xs @ ys) = panel_updates xs @ panel_updates ys"
  "analysis_calls (xs @ ys) = analysis_calls xs @ analysis_calls ys"
  "reports (xs @ ys) = reports xs @ reports ys"
  "information_messages (xs @ ys) = information_messages xs @ information_messages ys"
     apply (induction xs rule: panel_updates.induct; simp)
    apply (induction xs rule: analysis_calls.induct; simp)
   apply (induction xs rule: reports.induct; simp)
  apply (induction xs rule: information_messages.induct; simp)
  done

lemma authorized_before_analysis_take:
  "take 1 evs = [AuthorizeRHDA c] \<Longrightarrow> authorized_before_analysis evs"
  by (cases evs) simp_all

lemma update_only_after_write_append:
  "panel_updates pre = [] \<Longrightarrow> update_only_after_write (pre @ WriteFile f d # post)"
  by (induction pre rule: panel_updates.induct) simp_all

lemma updateWebviewPanel_simps [simp]:
  "trace (updateWebviewPanel d s) =
     trace s @ (case currentPanel s of Some p \<Rightarrow> [DoUpdatePanel p d] | None \<Rightarrow> [])"
  "currentPanel (updateWebviewPanel d s) = currentPanel s"
  "disk (updateWebviewPanel d s) = disk s"
  by (simp_all add: updateWebviewPanel_def split: option.splits)

subsection \<open>writeReportToFile\<close>

lemma fs_writeFile_simps [simp]:
  "fst (fs_writeFile env f d s) = writeFile env f d"
  "trace (snd (fs_writeFile env f d s)) = trace s @ [WriteFile f d]"
  "currentPanel (snd (fs_writeFile env f d s)) = whileWriting env (currentPanel s)"
  "disk (snd (fs_writeFile env f d s)) =
     (if truthy (writeFile env f d) then disk s else (disk s)(f \<mapsto> File d))"
  by (simp_all add: fs_writeFile_def Let_def)

lemma fs_mkdirSync_simps [simp]:
  "fst (fs_mkdirSync env d r s) = mkdirSync env d r"
  "trace (snd (fs_mkdirSync env d r s)) = trace s @ [MkdirSync d r]"
  "currentPanel (snd (fs_mkdirSync env d r s)) = currentPanel s"
  "disk (snd (fs_mkdirSync env d r s)) =
     (case mkdirSync env d r of
        None \<Rightarrow> make_directories ((if r then ancestors env d else []) @ [d]) (disk s)
      | Some e \<Rightarrow> disk s)"
  by (simp_all add: fs_mkdirSync_def Let_def split: option.splits)

lemma make_directories_simps:
  "p \<in> set ps \<Longrightarrow> make_directories ps m p \<noteq> None"
  "m p \<noteq> None \<Longrightarrow> make_directories ps m p = m p"
  by (simp_all add: make_directories_def)

text \<open>The same function, with the pairs taken apart.\<close>

lemma writeReportToFile_alt:
  "writeReportToFile env data s =
     (case reportFilePath env of
        Str f \<Rightarrow>
          (if existsSync s (dirname env f)
           then (if truthy (writeFile env f data) then Rejected (writeFile env f data)
                 else Fulfilled (),
                 snd (fs_writeFile env f data s))
           else (case mkdirSync env (dirname env f) True of
                   Some err \<Rightarrow> (Rejected err, snd (fs_mkdirSync env (dirname env f) True s))
                 | None \<Rightarrow>
                     (if truthy (writeFile env f data) then Rejected (writeFile env f data)
                      else Fulfilled (),
                      snd (fs_writeFile env f data (snd (fs_mkdirSync env (dirname env f) True s))))))
      | _ \<Rightarrow> (Rejected (ERR_INVALID_ARG_TYPE env), s))"
  by (simp add: writeReportToFile_def Let_def split_beta split: jsval.splits option.splits)

lemma writeReportToFile_trace:
  "\<exists>evs. trace (snd (writeReportToFile env d s)) = trace s @ evs
       \<and> panel_updates evs = [] \<and> analysis_calls evs = []"
  by (simp add: writeReportToFile_alt split: jsval.splits option.splits)

lemma writeReportToFile_disk_only:
  "disk s = disk t \<Longrightarrow> fst (writeReportToFile env d s) = fst (writeReportToFile env d t)"
  by (simp add: writeReportToFile_alt existsSync_def split: jsval.splits option.splits)

lemma writeReportToFile_settles: "fst (writeReportToFile env d s) \<noteq> Pending"
  by (simp add: writeReportToFile_alt split: jsval.splits option.splits)

lemma writeReportToFile_written:
  assumes "fst (writeReportToFile env d s) = Fulfilled v"
  shows "\<exists>f. reportFilePath env = Str f \<and> disk (snd (writeReportToFile env d s)) f = Some (File d)"
proof (cases "reportFilePath env")
  case (Str f)
  with assms have "disk (snd (writeReportToFile env d s)) f = Some (File d)"
    by (auto simp add: writeReportToFile_alt split: option.splits if_splits)
  with Str show ?thesis by simp
qed (use assms in \<open>simp_all add: writeReportToFile_alt\<close>)

lemma writeReportToFile_fulfilled_trace:
  assumes "fst (writeReportToFile env d s) = Fulfilled v"
  shows "\<exists>pre f. trace (snd (writeReportToFile env d s)) = trace s @ pre @ [WriteFile f d]
           \<and> panel_updates pre = []"
proof (cases "reportFilePath env")
  case (Str f)
  show ?thesis
  proof (cases "existsSync s (dirname env f)")
    case True
    with Str assms
    have "trace (snd (writeReportToFile env d s)) = trace s @ [] @ [WriteFile f d]"
      by (simp add: writeReportToFile_alt split: if_splits)
    then show ?thesis by (metis panel_updates.simps(1))
  next
    case False
    with Str assms
    have "trace (snd (writeReportToFile env d s)) =
            trace s @ [MkdirSync (dirname env f) True] @ [WriteFile f d]"
      by (simp add: writeReportToFile_alt split: if_splits option.splits)
    moreover have "panel_updates [MkdirSync (dirname env f) True] = []" by simp
    ultimately show ?thesis by blast
  qed
qed (use assms in \<open>simp_all add: writeReportToFile_alt\<close>)

subsection \<open>triggerWebviewPanel\<close>

lemma triggerWebviewPanel_fulfilled:
  assumes "authorizeRHDA env ctx = Fulfilled v"
  shows "fst (triggerWebviewPanel env ctx s) = Fulfilled ()"
    and "trace (snd (triggerWebviewPanel env ctx s)) =
           trace s @ [AuthorizeRHDA ctx, CreateOrShowWebviewPanel]"
    and "disk (snd (triggerWebviewPanel env ctx s)) = disk s"
  using assms
  by (simp_all add: triggerWebviewPanel_def createOrShowWebviewPanel_def Let_def
      split: option.splits)

lemma triggerWebviewPanel_rejected:
  assumes "authorizeRHDA env ctx = Rejected e"
  shows "fst (triggerWebviewPanel env ctx s) = Rejected e"
    and "trace (snd (triggerWebviewPanel env ctx s)) = trace s @ [AuthorizeRHDA ctx]"
  using assms by (simp_all add: triggerWebviewPanel_def Let_def)

lemma triggerWebviewPanel_pending:
  assumes "authorizeRHDA env ctx = Pending"
  shows "fst (triggerWebviewPanel env ctx s) = Pending"
    and "trace (snd (triggerWebviewPanel env ctx s)) = trace s @ [AuthorizeRHDA ctx]"
  using assms by (simp_all add: triggerWebviewPanel_def Let_def)

subsection \<open>executeStackAnalysis\<close>

lemma beforeWrite_simps [simp]:
  "trace (beforeWrite env m s) = trace s @
     [WithProgress, Report WIN_ANALYZING_DEPENDENCIES,
      StackAnalysisService m (stackAnalysisOptions (globalConfig env)),
      Report WIN_GENERATING_DEPENDENCIES]"
  "disk (beforeWrite env m s) = disk s"
  by (simp_all add: beforeWrite_def)

lemma executeStackAnalysis_options_fault:
  assumes "optionsFault env = Some e"
  shows "fst (executeStackAnalysis env m s) = Rejected e"
    and "trace (snd (executeStackAnalysis env m s)) = trace s @
           [WithProgress, Report WIN_ANALYZING_DEPENDENCIES, Report WIN_ANALYZING_DEPENDENCIES]"
    and "currentPanel (snd (executeStackAnalysis env m s)) = currentPanel s"
  using assms by (simp_all add: executeStackAnalysis_def Let_def)

lemma executeStackAnalysis_throws:
  assumes nf: "optionsFault env = None"
      and srv: "stackAnalysisService env m (stackAnalysisOptions (globalConfig env)) = Throws e"
  shows "fst (executeStackAnalysis env m s) = Rejected e"
    and "trace (snd (executeStackAnalysis env m s)) = trace s @
           [WithProgress, Report WIN_ANALYZING_DEPENDENCIES,
            StackAnalysisService m (stackAnalysisOptions (globalConfig env)),
            Report WIN_ANALYZING_DEPENDENCIES]"
    and "currentPanel (snd (executeStackAnalysis env m s)) = currentPanel s"
  using assms by (simp_all add: executeStackAnalysis_def Let_def)

lemma executeStackAnalysis_pending:
  assumes nf: "optionsFault env = None"
      and srv: "stackAnalysisService env m (stackAnalysisOptions (globalConfig env)) = Returns Pending"
  shows "fst (executeStackAnalysis env m s) = Pending"
    and "trace (snd (executeStackAnalysis env m s)) = trace s @
           [WithProgress, Report WIN_ANALYZING_DEPENDENCIES,
            StackAnalysisService m (stackAnalysisOptions (globalConfig env))]"
  using assms by (simp_all add: executeStackAnalysis_def Let_def)

lemma executeStackAnalysis_rejected:
  assumes nf: "optionsFault env = None"
      and srv: "stackAnalysisService env m (stackAnalysisOptions (globalConfig env)) =
             Returns (Rejected e)"
  shows "fst (executeStackAnalysis env m s) = Rejected e"
    and "trace (snd (executeStackAnalysis env m s)) = trace s @
           [WithProgress, Report WIN_ANALYZING_DEPENDENCIES,
            StackAnalysisService m (stackAnalysisOptions (globalConfig env)),
            Report WIN_FAILURE_DEPENDENCY_ANALYSIS]"
    and "currentPanel (snd (executeStackAnalysis env m s)) = whileAnalyzing env (currentPanel s)"
  using assms by (simp_all add: executeStackAnalysis_def Let_def)

lemma executeStackAnalysis_fulfilled:
  assumes nf: "optionsFault env = None"
      and srv: "stackAnalysisService env m (stackAnalysisOptions (globalConfig env)) =
             Returns (Fulfilled R)"
  shows "executeStackAnalysis env m s =
    (case fst (writeReportToFile env R (beforeWrite env m s)) of
       Fulfilled u \<Rightarrow>
         (Fulfilled (),
          emit (Report WIN_SUCCESS_DEPENDENCY_ANALYSIS)
            (updateWebviewPanel R (snd (writeReportToFile env R (beforeWrite env m s)))))
     | Rejected err \<Rightarrow>
         (Rejected err,
          emit (Report WIN_FAILURE_DEPENDENCY_ANALYSIS)
            (snd (writeReportToFile env R (beforeWrite env m s))))
     | Pending \<Rightarrow> (Pending, snd (writeReportToFile env R (beforeWrite env m s))))"
  using assms
  by (simp add: executeStackAnalysis_def beforeWrite_def Let_def
      split: prod.splits outcome.splits)

lemma executeStackAnalysis_fulfilled_fst:
  assumes nf: "optionsFault env = None"
      and srv: "stackAnalysisService env m (stackAnalysisOptions (globalConfig env)) =
             Returns (Fulfilled R)"
  shows "fst (executeStackAnalysis env m s) = fst (writeReportToFile env R s)"
proof -
  have "fst (writeReportToFile env R (beforeWrite env m s)) = fst (writeReportToFile env R s)"
    by (rule writeReportToFile_disk_only) simp
  then show ?thesis
    by (simp add: executeStackAnalysis_fulfilled [OF nf srv] split: outcome.splits)
qed

lemma executeStackAnalysis_fulfilled_trace:
  assumes nf: "optionsFault env = None"
      and srv: "stackAnalysisService env m (stackAnalysisOptions (globalConfig env)) =
             Returns (Fulfilled R)"
  shows "\<exists>evs. trace (snd (executeStackAnalysis env m s)) = trace s @
            [WithProgress, Report WIN_ANALYZING_DEPENDENCIES,
             StackAnalysisService m (stackAnalysisOptions (globalConfig env))] @ evs
          \<and> analysis_calls evs = []
          \<and> panel_updates evs =
              (case fst (executeStackAnalysis env m s) of
                 Fulfilled u \<Rightarrow>
                   (case currentPanel (snd (executeStackAnalysis env m s)) of
                      Some p \<Rightarrow> [(p, R)]
                    | None \<Rightarrow> [])
               | _ \<Rightarrow> [])"
proof -
  obtain wevs where w:
    "trace (snd (writeReportToFile env R (beforeWrite env m s))) =
       trace (beforeWrite env m s) @ wevs"
    "panel_updates wevs = []" "analysis_calls wevs = []"
    using writeReportToFile_trace by blast
  show ?thesis
  proof (cases "fst (writeReportToFile env R (beforeWrite env m s))")
    case (Fulfilled u)
    then show ?thesis using w
      by (simp add: executeStackAnalysis_fulfilled [OF nf srv] split: option.splits)
  next
    case (Rejected e)
    then show ?thesis using w
      by (simp add: executeStackAnalysis_fulfilled [OF nf srv])
  next
    case Pending
    then show ?thesis using w
      by (simp add: executeStackAnalysis_fulfilled [OF nf srv])
  qed
qed

lemma executeStackAnalysis_fulfilled_disk:
  assumes nf: "optionsFault env = None"
      and srv: "stackAnalysisService env m (stackAnalysisOptions (globalConfig env)) =
             Returns (Fulfilled R)"
      and ok: "fst (executeStackAnalysis env m s) = Fulfilled v"
  shows "\<exists>f. reportFilePath env = Str f
           \<and> disk (snd (executeStackAnalysis env m s)) f = Some (File R)"
proof -
  from ok obtain u where u: "fst (writeReportToFile env R (beforeWrite env m s)) = Fulfilled u"
    by (simp add: executeStackAnalysis_fulfilled [OF nf srv] split: outcome.splits)
  from writeReportToFile_written [OF u] u show ?thesis
    by (simp add: executeStackAnalysis_fulfilled [OF nf srv])
qed

subsection \<open>generateRHDAReport\<close>

lemma isSupported_cases:
  obtains (throws) e where "isSupported env p = Inl e"
  | (unsupported) "isSupported env p = Inr False"
  | (supported) "isSupported env p = Inr True"
  by (cases "isSupported env p") auto

lemma generateRHDAReport_throws:
  assumes "isSupported env (fsPath u) = Inl e"
  shows "fst (generateRHDAReport env ctx u s) = Rejected e"
    and "events_since s (snd (generateRHDAReport env ctx u s)) = []"
  using assms by (simp_all add: generateRHDAReport_def events_since_def)

lemma generateRHDAReport_unsupported:
  assumes "isSupported env (fsPath u) = Inr False"
  shows "fst (generateRHDAReport env ctx u s) = Fulfilled ()"
    and "events_since s (snd (generateRHDAReport env ctx u s)) =
           [ShowInformationMessage (''File '' @ ToString (fsPath u) @ '' is not supported!!'')]"
  using assms by (simp_all add: generateRHDAReport_def events_since_def)

lemma generateRHDAReport_unauthorized:
  assumes "isSupported env (fsPath u) = Inr True" "authorizeRHDA env ctx = Rejected e"
  shows "fst (generateRHDAReport env ctx u s) = Rejected e"
    and "analysis_calls (events_since s (snd (generateRHDAReport env ctx u s))) = []"
    and "take 1 (events_since s (snd (generateRHDAReport env ctx u s))) = [AuthorizeRHDA ctx]"
  using assms triggerWebviewPanel_rejected [OF assms(2), of s]
  by (simp_all add: generateRHDAReport_def events_since_def split_beta split: option.splits)

lemma generateRHDAReport_authorizing:
  assumes "isSupported env (fsPath u) = Inr True" "authorizeRHDA env ctx = Pending"
  shows "fst (generateRHDAReport env ctx u s) = Pending"
    and "analysis_calls (events_since s (snd (generateRHDAReport env ctx u s))) = []"
    and "take 1 (events_since s (snd (generateRHDAReport env ctx u s))) = [AuthorizeRHDA ctx]"
  using assms triggerWebviewPanel_pending [OF assms(2), of s]
  by (simp_all add: generateRHDAReport_def events_since_def split_beta)

lemma generateRHDAReport_supported:
  assumes "isSupported env (fsPath u) = Inr True" "authorizeRHDA env ctx = Fulfilled v"
  shows "generateRHDAReport env ctx u s =
    (case fst (executeStackAnalysis env (fsPath u) (snd (triggerWebviewPanel env ctx s))) of
       Rejected error \<Rightarrow>
         (Rejected error,
          updateWebviewPanel (Str ''error'')
            (snd (executeStackAnalysis env (fsPath u) (snd (triggerWebviewPanel env ctx s)))))
     | Fulfilled w \<Rightarrow>
         (Fulfilled (),
          snd (executeStackAnalysis env (fsPath u) (snd (triggerWebviewPanel env ctx s))))
     | Pending \<Rightarrow>
         (Pending,
          snd (executeStackAnalysis env (fsPath u) (snd (triggerWebviewPanel env ctx s)))))"
  using assms triggerWebviewPanel_fulfilled(1) [OF assms(2), of s]
  by (simp add: generateRHDAReport_def split_beta split: outcome.splits)

text \<open>
  The run of the supported branch once the authorization is through: the events up to
  the call of the service, and what the panels are told afterwards.
\<close>

lemma generateRHDAReport_analysis:
  assumes sup: "isSupported env (fsPath u) = Inr True"
      and auth: "authorizeRHDA env ctx = Fulfilled v"
      and nf: "optionsFault env = None"
  shows "\<exists>evs. events_since s (snd (generateRHDAReport env ctx u s)) =
            [AuthorizeRHDA ctx, CreateOrShowWebviewPanel, WithProgress,
             Report WIN_ANALYZING_DEPENDENCIES,
             StackAnalysisService (fsPath u) (stackAnalysisOptions (globalConfig env))] @ evs
          \<and> analysis_calls evs = []
          \<and> panel_updates evs =
              (case stackAnalysisService env (fsPath u) (stackAnalysisOptions (globalConfig env)) of
                 Returns Pending \<Rightarrow> []
               | Returns (Fulfilled R) \<Rightarrow>
                  (case currentPanel (snd (generateRHDAReport env ctx u s)) of
                     Some p \<Rightarrow>
                       [(p, if fst (generateRHDAReport env ctx u s) = Fulfilled () then R
                            else Str ''error'')]
                   | None \<Rightarrow> [])
               | _ \<Rightarrow>
                  (case currentPanel (snd (generateRHDAReport env ctx u s)) of
                     Some p \<Rightarrow> [(p, Str ''error'')]
                   | None \<Rightarrow> []))"
proof -
  let ?t = "snd (triggerWebviewPanel env ctx s)"
  let ?opts = "stackAnalysisOptions (globalConfig env)"
  note tr = triggerWebviewPanel_fulfilled(2) [OF auth, of s]
  note gen = generateRHDAReport_supported [OF sup auth, of s]
  show ?thesis
  proof (cases "stackAnalysisService env (fsPath u) ?opts")
    case (Throws e)
    from executeStackAnalysis_throws [OF nf Throws, of ?t] tr show ?thesis
      by (simp add: gen Throws events_since_def split: option.splits)
  next
    case (Returns r)
    show ?thesis
    proof (cases r)
      case (Fulfilled R)
      with Returns have srv: "stackAnalysisService env (fsPath u) ?opts = Returns (Fulfilled R)"
        by simp
      from executeStackAnalysis_fulfilled_trace [OF nf srv, of ?t] obtain evs where
        e: "trace (snd (executeStackAnalysis env (fsPath u) ?t)) = trace ?t @
              [WithProgress, Report WIN_ANALYZING_DEPENDENCIES,
               StackAnalysisService (fsPath u) ?opts] @ evs"
           "analysis_calls evs = []"
           "panel_updates evs =
              (case fst (executeStackAnalysis env (fsPath u) ?t) of
                 Fulfilled u' \<Rightarrow>
                   (case currentPanel (snd (executeStackAnalysis env (fsPath u) ?t)) of
                      Some p \<Rightarrow> [(p, R)]
                    | None \<Rightarrow> [])
               | _ \<Rightarrow> [])"
        by blast
      show ?thesis
      proof (cases "fst (executeStackAnalysis env (fsPath u) ?t)")
        case (Fulfilled w)
        with e tr show ?thesis
          by (simp add: gen srv events_since_def split: option.splits)
      next
        case (Rejected err)
        with e tr show ?thesis
          by (simp add: gen srv events_since_def split: option.splits)
      next
        case Pending
        with executeStackAnalysis_fulfilled_fst [OF nf srv, of ?t] writeReportToFile_settles
        show ?thesis by metis
      qed
    next
      case (Rejected err)
      with Returns have srv: "stackAnalysisService env (fsPath u) ?opts = Returns (Rejected err)"
        by simp
      from executeStackAnalysis_rejected [OF nf srv, of ?t] tr show ?thesis
        by (simp add: gen srv events_since_def split: option.splits)
    next
      case Pending
      with Returns have srv: "stackAnalysisService env (fsPath u) ?opts = Returns Pending"
        by simp
      from executeStackAnalysis_pending [OF nf srv, of ?t] tr show ?thesis
        by (simp add: gen srv events_since_def)
    qed
  qed
qed

lemma generateRHDAReport_options_fault:
  assumes sup: "isSupported env (fsPath u) = Inr True"
      and auth: "authorizeRHDA env ctx = Fulfilled v"
      and fault: "optionsFault env = Some e"
  shows "fst (generateRHDAReport env ctx u s) = Rejected e"
    and "analysis_calls (events_since s (snd (generateRHDAReport env ctx u s))) = []"
    and "take 1 (events_since s (snd (generateRHDAReport env ctx u s))) = [AuthorizeRHDA ctx]"
  using executeStackAnalysis_options_fault [OF fault, of "fsPath u" "snd (triggerWebviewPanel env ctx s)"]
    triggerWebviewPanel_fulfilled(2) [OF auth, of s]
  by (simp_all add: generateRHDAReport_supported [OF sup auth, of s] events_since_def
      split: option.splits)

text \<open>
  A run that has called the analysis service went through the supported branch, was
  authorized, and called the service with the path of the URI and the option bag.
\<close>

lemma analysis_called:
  assumes "(m, opts) \<in> set (analysis_calls (events_since s (snd (generateRHDAReport env ctx u s))))"
  shows "isSupported env (fsPath u) = Inr True"
    and "\<exists>v. authorizeRHDA env ctx = Fulfilled v"
    and "m = fsPath u" and "opts = stackAnalysisOptions (globalConfig env)"
    and "optionsFault env = None"
proof -
  show sup: "isSupported env (fsPath u) = Inr True"
  proof (cases env "fsPath u" rule: isSupported_cases)
    case (throws e)
    from generateRHDAReport_throws(2) [OF this, where ctx = ctx and s = s] assms
    show ?thesis by simp
  next
    case unsupported
    from generateRHDAReport_unsupported(2) [OF this, where ctx = ctx and s = s] assms
    show ?thesis by simp
  qed
  show auth: "\<exists>v. authorizeRHDA env ctx = Fulfilled v"
  proof (cases "authorizeRHDA env ctx")
    case (Rejected e)
    from generateRHDAReport_unauthorized(2) [OF sup this, of s] assms show ?thesis by simp
  next
    case Pending
    from generateRHDAReport_authorizing(2) [OF sup this, of s] assms show ?thesis by simp
  qed simp
  then obtain v where v: "authorizeRHDA env ctx = Fulfilled v" ..
  show nf: "optionsFault env = None"
  proof (cases "optionsFault env")
    case (Some e)
    from generateRHDAReport_options_fault(2) [OF sup v this, of s] assms show ?thesis by simp
  qed simp
  from generateRHDAReport_analysis [OF sup v nf, of s] assms
  show "m = fsPath u" and "opts = stackAnalysisOptions (globalConfig env)" by auto
qed

lemma generateRHDAReport_first_event:
  assumes "isSupported env (fsPath u) = Inr True"
  shows "take 1 (events_since s (snd (generateRHDAReport env ctx u s))) = [AuthorizeRHDA ctx]"
proof (cases "authorizeRHDA env ctx")
  case (Fulfilled v)
  show ?thesis
  proof (cases "optionsFault env")
    case None
    from generateRHDAReport_analysis [OF assms Fulfilled this, of s] show ?thesis by auto
  next
    case (Some e)
    from generateRHDAReport_options_fault(3) [OF assms Fulfilled this] show ?thesis .
  qed
next
  case (Rejected e)
  from generateRHDAReport_unauthorized(3) [OF assms this] show ?thesis .
next
  case Pending
  from generateRHDAReport_authorizing(3) [OF assms this] show ?thesis .
qed

lemma generateRHDAReport_success_order:
  assumes sup: "isSupported env (fsPath u) = Inr True"
      and auth: "authorizeRHDA env ctx = Fulfilled v"
      and nf: "optionsFault env = None"
      and srv: "stackAnalysisService env (fsPath u) (stackAnalysisOptions (globalConfig env)) =
                  Returns (Fulfilled R)"
      and ok: "fst (generateRHDAReport env ctx u s) = Fulfilled ()"
  shows "update_only_after_write (events_since s (snd (generateRHDAReport env ctx u s)))"
proof -
  let ?t = "snd (triggerWebviewPanel env ctx s)"
  let ?b = "beforeWrite env (fsPath u) ?t"
  note gen = generateRHDAReport_supported [OF sup auth, of s]
  note ex = executeStackAnalysis_fulfilled [OF nf srv, of ?t]
  from ok obtain w where w: "fst (writeReportToFile env R ?b) = Fulfilled w"
    by (simp add: gen ex split: outcome.splits)
  from writeReportToFile_fulfilled_trace [OF w] obtain pre f where
    p: "trace (snd (writeReportToFile env R ?b)) = trace ?b @ pre @ [WriteFile f R]"
       "panel_updates pre = []"
    by blast
  let ?pre = "[AuthorizeRHDA ctx, CreateOrShowWebviewPanel, WithProgress,
      Report WIN_ANALYZING_DEPENDENCIES,
      StackAnalysisService (fsPath u) (stackAnalysisOptions (globalConfig env)),
      Report WIN_GENERATING_DEPENDENCIES] @ pre"
  have "\<exists>post. events_since s (snd (generateRHDAReport env ctx u s)) = ?pre @ WriteFile f R # post"
    using w p triggerWebviewPanel_fulfilled(2) [OF auth, of s]
    by (simp add: gen ex events_since_def)
  moreover have "panel_updates ?pre = []" using p by simp
  ultimately show ?thesis using update_only_after_write_append by metis
qed

text \<open>The definitions that a run on the example installation unfolds.\<close>

lemmas run_defs =
  generateRHDAReport_def isSupported_def triggerWebviewPanel_def createOrShowWebviewPanel_def
  executeStackAnalysis_def writeReportToFile_def fs_writeFile_def fs_mkdirSync_def
  updateWebviewPanel_def existsSync_def events_since_def emit_def Let_def reportFilePath_def
  js_or_def stackAnalysisOptions_def supportedFiles_def posix_basename_def posix_dirname_def
  exampleEnvironment_def exampleConfig_def emptyState_def pomUri_def gradleUri_def
  reportClosedEnvironment_def failingAnalysisEnvironment_def throwingAnalysisEnvironment_def
  failingWriteEnvironment_def throwingConfigEnvironment_def failingMkdirEnvironment_def
  tmpState_def

section \<open>The claims\<close>

subsection \<open>The option bag\<close>

text \<open>
  Claim C5, as the spec states it, fails: a user name that is \<^verbatim>\<open>undefined\<close> is not
  configured, but it is not the empty string either, so with a token \<^verbatim>\<open>x\<close> the guard
  \<^verbatim>\<open>user !== '' && token !== ''\<close> holds and both keys are put into the bag (the user key
  with the value \<^verbatim>\<open>undefined\<close>), although only one of the two is set.
\<close>

theorem undefined_oss_user_counterexample:
  "exhortOSSIndexUser
      (exampleConfig\<lparr>exhortOSSIndexUser := Undefined, exhortOSSIndexToken := Str ''x''\<rparr>) = Undefined
   \<and> exhortOSSIndexToken
      (exampleConfig\<lparr>exhortOSSIndexUser := Undefined, exhortOSSIndexToken := Str ''x''\<rparr>) = Str ''x''
   \<and> has_key (stackAnalysisOptions
        (exampleConfig\<lparr>exhortOSSIndexUser := Undefined, exhortOSSIndexToken := Str ''x''\<rparr>))
        ''EXHORT_OSS_INDEX_USER''
   \<and> has_key (stackAnalysisOptions
        (exampleConfig\<lparr>exhortOSSIndexUser := Undefined, exhortOSSIndexToken := Str ''x''\<rparr>))
        ''EXHORT_OSS_INDEX_TOKEN''
   \<and> map_of (stackAnalysisOptions
        (exampleConfig\<lparr>exhortOSSIndexUser := Undefined, exhortOSSIndexToken := Str ''x''\<rparr>))
        ''EXHORT_OSS_INDEX_USER'' = Some Undefined"
  by (simp add: stackAnalysisOptions_def has_key_def exampleConfig_def)

text \<open>
  Claim C5, amended. For every configuration, the option bag contains the key
  \<^verbatim>\<open>EXHORT_OSS_INDEX_USER\<close> if and only if it contains the key \<^verbatim>\<open>EXHORT_OSS_INDEX_TOKEN\<close>,
  and both are present exactly when neither the user name nor the token is the empty
  string, which is the test the code makes. If one of the two is the empty string
  neither key is included. When present, the keys carry the configured values.
\<close>

theorem oss_index_keys_come_together:
  "has_key (stackAnalysisOptions c) ''EXHORT_OSS_INDEX_USER'' =
     has_key (stackAnalysisOptions c) ''EXHORT_OSS_INDEX_TOKEN''
   \<and> (has_key (stackAnalysisOptions c) ''EXHORT_OSS_INDEX_USER''
        \<and> has_key (stackAnalysisOptions c) ''EXHORT_OSS_INDEX_TOKEN'') =
       (exhortOSSIndexUser c \<noteq> Str '''' \<and> exhortOSSIndexToken c \<noteq> Str '''')
   \<and> (exhortOSSIndexUser c = Str '''' \<or> exhortOSSIndexToken c = Str '''' \<longrightarrow>
        \<not> has_key (stackAnalysisOptions c) ''EXHORT_OSS_INDEX_USER''
        \<and> \<not> has_key (stackAnalysisOptions c) ''EXHORT_OSS_INDEX_TOKEN'')
   \<and> (has_key (stackAnalysisOptions c) ''EXHORT_OSS_INDEX_USER'' \<longrightarrow>
        map_of (stackAnalysisOptions c) ''EXHORT_OSS_INDEX_USER'' = Some (exhortOSSIndexUser c)
        \<and> map_of (stackAnalysisOptions c) ''EXHORT_OSS_INDEX_TOKEN'' = Some (exhortOSSIndexToken c))"
  by (simp add: stackAnalysisOptions_def has_key_def dom_update update_conv' Let_def)

text \<open>
  Claim C5, amended, on examples: with the user \<^verbatim>\<open>alice\<close> and the token \<^verbatim>\<open>s3cret\<close> both keys are in
  the bag; with the user \<^verbatim>\<open>alice\<close> and an empty token neither is.
\<close>

theorem oss_index_keys_come_together_witness:
  "has_key (stackAnalysisOptions
      (exampleConfig\<lparr>exhortOSSIndexUser := Str ''alice'', exhortOSSIndexToken := Str ''s3cret''\<rparr>))
      ''EXHORT_OSS_INDEX_USER''
   \<and> map_of (stackAnalysisOptions
      (exampleConfig\<lparr>exhortOSSIndexUser := Str ''alice'', exhortOSSIndexToken := Str ''s3cret''\<rparr>))
      ''EXHORT_OSS_INDEX_TOKEN'' = Some (Str ''s3cret'')
   \<and> \<not> has_key (stackAnalysisOptions (exampleConfig\<lparr>exhortOSSIndexUser := Str ''alice''\<rparr>))
      ''EXHORT_OSS_INDEX_USER''
   \<and> \<not> has_key (stackAnalysisOptions (exampleConfig\<lparr>exhortOSSIndexUser := Str ''alice''\<rparr>))
      ''EXHORT_OSS_INDEX_TOKEN''"
  using
    oss_index_keys_come_together
      [of "exampleConfig\<lparr>exhortOSSIndexUser := Str ''alice'', exhortOSSIndexToken := Str ''s3cret''\<rparr>"]
    oss_index_keys_come_together [of "exampleConfig\<lparr>exhortOSSIndexUser := Str ''alice''\<rparr>"]
  by (simp add: exampleConfig_def)

text \<open>
  Claim C6, as the spec states it, fails: a token that is \<^verbatim>\<open>undefined\<close> is not the empty
  string, so it passes the test \<^verbatim>\<open>!== ''\<close> and the key \<^verbatim>\<open>EXHORT_SNYK_TOKEN\<close> is put into
  the bag (with the value \<^verbatim>\<open>undefined\<close>), where the claim says it is omitted.
\<close>

theorem undefined_snyk_token_counterexample:
  "exhortSnykToken (exampleConfig\<lparr>exhortSnykToken := Undefined\<rparr>) = Undefined
   \<and> has_key (stackAnalysisOptions (exampleConfig\<lparr>exhortSnykToken := Undefined\<rparr>))
        ''EXHORT_SNYK_TOKEN''
   \<and> map_of (stackAnalysisOptions (exampleConfig\<lparr>exhortSnykToken := Undefined\<rparr>))
        ''EXHORT_SNYK_TOKEN'' = Some Undefined"
  by (simp add: stackAnalysisOptions_def has_key_def exampleConfig_def)

text \<open>
  Claim C6, amended. For every configuration, the option bag contains the key
  \<^verbatim>\<open>EXHORT_SNYK_TOKEN\<close> if and only if the token is not the empty string; the key then
  carries the token, and for the empty string the key is omitted.
\<close>

theorem snyk_key_iff_token_not_empty_string:
  "has_key (stackAnalysisOptions c) ''EXHORT_SNYK_TOKEN'' = (exhortSnykToken c \<noteq> Str '''')
   \<and> map_of (stackAnalysisOptions c) ''EXHORT_SNYK_TOKEN'' =
       (if exhortSnykToken c \<noteq> Str '''' then Some (exhortSnykToken c) else None)"
  by (simp add: stackAnalysisOptions_def has_key_def dom_update update_conv' Let_def)

text \<open>
  Claim C6, amended, on examples: the token \<^verbatim>\<open>tok\<close> is in the bag, and without a token
  (the empty string) the bag has no such key.
\<close>

theorem snyk_key_iff_token_not_empty_string_witness:
  "map_of (stackAnalysisOptions (exampleConfig\<lparr>exhortSnykToken := Str ''tok''\<rparr>))
      ''EXHORT_SNYK_TOKEN'' = Some (Str ''tok'')
   \<and> \<not> has_key (stackAnalysisOptions exampleConfig) ''EXHORT_SNYK_TOKEN''"
  using
    snyk_key_iff_token_not_empty_string [of "exampleConfig\<lparr>exhortSnykToken := Str ''tok''\<rparr>"]
    snyk_key_iff_token_not_empty_string [of exampleConfig]
  by (simp add: exampleConfig_def)

subsection \<open>Files that are not supported\<close>

text \<open>
  Claim C3. For every URI whose path is a string with a base name that is not one of
  \<^verbatim>\<open>pom.xml\<close>, \<^verbatim>\<open>package.json\<close>, \<^verbatim>\<open>go.mod\<close>, \<^verbatim>\<open>requirements.txt\<close>, the promise of
  \<^verbatim>\<open>generateRHDAReport\<close> is fulfilled, the analysis service is never called, and the run
  shows exactly one informational message, which names the path; that message is all
  the run does.
\<close>

theorem unsupported_file_is_only_notified:
  assumes "fsPath u = Str p" and "basename env p \<notin> set supportedFiles"
  shows "fst (generateRHDAReport env ctx u s) = Fulfilled ()
       \<and> analysis_calls (events_since s (snd (generateRHDAReport env ctx u s))) = []
       \<and> information_messages (events_since s (snd (generateRHDAReport env ctx u s))) =
           [''File '' @ p @ '' is not supported!!'']
       \<and> events_since s (snd (generateRHDAReport env ctx u s)) =
           [ShowInformationMessage (''File '' @ p @ '' is not supported!!'')]"
proof -
  from assms have "isSupported env (fsPath u) = Inr False"
    by (simp add: isSupported_def)
  from generateRHDAReport_unsupported [OF this, where ctx = ctx and s = s] assms(1) show ?thesis
    by simp
qed

text \<open>
  Claim C3, on an example: \<^verbatim>\<open>/work/app/build.gradle\<close> has the base name \<^verbatim>\<open>build.gradle\<close>,
  which is not supported; the run is fulfilled and only shows the message.
\<close>

theorem unsupported_file_is_only_notified_witness:
  "fsPath gradleUri = Str ''/work/app/build.gradle''
   \<and> basename exampleEnvironment ''/work/app/build.gradle'' \<notin> set supportedFiles
   \<and> fst (generateRHDAReport exampleEnvironment (Obj 1) gradleUri emptyState) = Fulfilled ()
   \<and> analysis_calls
        (events_since emptyState (snd (generateRHDAReport exampleEnvironment (Obj 1) gradleUri emptyState)))
       = []
   \<and> events_since emptyState (snd (generateRHDAReport exampleEnvironment (Obj 1) gradleUri emptyState)) =
       [ShowInformationMessage ''File /work/app/build.gradle is not supported!!'']"
proof -
  have p: "fsPath gradleUri = Str ''/work/app/build.gradle''"
    by (simp add: gradleUri_def)
  have n: "basename exampleEnvironment ''/work/app/build.gradle'' \<notin> set supportedFiles"
    by (simp add: exampleEnvironment_def posix_basename_def supportedFiles_def)
  from unsupported_file_is_only_notified [OF p n, where ctx = "Obj 1" and s = emptyState] p n
  show ?thesis by simp
qed

text \<open>
  Claim C9. For every URI whose path is falsy (\<^verbatim>\<open>undefined\<close>, \<^verbatim>\<open>null\<close>, the empty string),
  \<^verbatim>\<open>generateRHDAReport\<close> takes the branch of the unsupported files: the promise is
  fulfilled and all the run does is to show the message with that path, so there is no
  authorization, no panel and no analysis. The guard selects the branch without an
  exception, and \<^verbatim>\<open>path.basename\<close> is not applied: whatever function it is, the run is
  the same.
\<close>

theorem falsy_path_is_unsupported:
  assumes "\<not> truthy (fsPath u)"
  shows "fst (generateRHDAReport env ctx u s) = Fulfilled ()
       \<and> events_since s (snd (generateRHDAReport env ctx u s)) =
           [ShowInformationMessage (''File '' @ ToString (fsPath u) @ '' is not supported!!'')]
       \<and> isSupported env (fsPath u) = Inr False
       \<and> generateRHDAReport (env\<lparr>basename := b\<rparr>) ctx u s = generateRHDAReport env ctx u s"
proof -
  from assms have f: "isSupported env (fsPath u) = Inr False"
    by (simp add: isSupported_def)
  from assms have "generateRHDAReport (env\<lparr>basename := b\<rparr>) ctx u s = generateRHDAReport env ctx u s"
    by (simp add: generateRHDAReport_def isSupported_def)
  with generateRHDAReport_unsupported [OF f, where ctx = ctx and s = s] f show ?thesis
    by simp
qed

text \<open>
  Claim C9, on examples: the three falsy paths \<^verbatim>\<open>undefined\<close>, \<^verbatim>\<open>null\<close> and \<^verbatim>\<open>''\<close>, with
  the messages that are shown.
\<close>

theorem falsy_path_is_unsupported_witness:
  "\<not> truthy (fsPath \<lparr>fsPath = Undefined\<rparr>) \<and> \<not> truthy (fsPath \<lparr>fsPath = Null\<rparr>)
   \<and> \<not> truthy (fsPath \<lparr>fsPath = Str ''''\<rparr>)
   \<and> fst (generateRHDAReport exampleEnvironment (Obj 1) \<lparr>fsPath = Undefined\<rparr> emptyState) = Fulfilled ()
   \<and> events_since emptyState
        (snd (generateRHDAReport exampleEnvironment (Obj 1) \<lparr>fsPath = Undefined\<rparr> emptyState)) =
       [ShowInformationMessage ''File undefined is not supported!!'']
   \<and> events_since emptyState
        (snd (generateRHDAReport exampleEnvironment (Obj 1) \<lparr>fsPath = Null\<rparr> emptyState)) =
       [ShowInformationMessage ''File null is not supported!!'']
   \<and> events_since emptyState
        (snd (generateRHDAReport exampleEnvironment (Obj 1) \<lparr>fsPath = Str ''''\<rparr> emptyState)) =
       [ShowInformationMessage ''File  is not supported!!'']"
proof -
  have a: "\<not> truthy (fsPath \<lparr>fsPath = Undefined\<rparr>)"
    and b: "\<not> truthy (fsPath \<lparr>fsPath = Null\<rparr>)"
    and c: "\<not> truthy (fsPath \<lparr>fsPath = Str ''''\<rparr>)"
    by simp_all
  from falsy_path_is_unsupported
      [OF a, where env = exampleEnvironment and ctx = "Obj 1" and s = emptyState and b = posix_basename]
    falsy_path_is_unsupported
      [OF b, where env = exampleEnvironment and ctx = "Obj 1" and s = emptyState and b = posix_basename]
    falsy_path_is_unsupported
      [OF c, where env = exampleEnvironment and ctx = "Obj 1" and s = emptyState and b = posix_basename]
  show ?thesis by simp
qed

subsection \<open>Authorization comes first\<close>

text \<open>
  Claim C4. For every URI whose path is a string with a supported base name, no call of
  the analysis service comes before the call of the authorization: the analysis service
  is called only in a run whose authorization was fulfilled, and (the path not being
  empty) the authorization is the first thing the run does.
\<close>

theorem authorization_precedes_analysis:
  assumes "fsPath u = Str p" and "basename env p \<in> set supportedFiles"
  shows "authorized_before_analysis (events_since s (snd (generateRHDAReport env ctx u s)))
       \<and> (analysis_calls (events_since s (snd (generateRHDAReport env ctx u s))) \<noteq> [] \<longrightarrow>
            (\<exists>v. authorizeRHDA env ctx = Fulfilled v))
       \<and> (p \<noteq> [] \<longrightarrow>
            take 1 (events_since s (snd (generateRHDAReport env ctx u s))) = [AuthorizeRHDA ctx])"
proof -
  let ?evs = "events_since s (snd (generateRHDAReport env ctx u s))"
  have first: "take 1 ?evs = [AuthorizeRHDA ctx]" if "p \<noteq> []"
  proof -
    from assms that have "isSupported env (fsPath u) = Inr True"
      by (simp add: isSupported_def)
    then show ?thesis by (rule generateRHDAReport_first_event)
  qed
  have order: "authorized_before_analysis ?evs"
  proof (cases "p = []")
    case True
    with assms(1) have "isSupported env (fsPath u) = Inr False"
      by (simp add: isSupported_def)
    from generateRHDAReport_unsupported(2) [OF this, where ctx = ctx and s = s] show ?thesis by simp
  next
    case False
    from first [OF this] show ?thesis by (rule authorized_before_analysis_take)
  qed
  have auth: "\<exists>v. authorizeRHDA env ctx = Fulfilled v" if "analysis_calls ?evs \<noteq> []"
  proof -
    from that obtain c where "c \<in> set (analysis_calls ?evs)"
      by (cases "analysis_calls ?evs") auto
    then have "(fst c, snd c) \<in> set (analysis_calls ?evs)" by simp
    then show ?thesis by (rule analysis_called(2))
  qed
  from first order auth show ?thesis by blast
qed

text \<open>
  Claim C4, on an example: the run on \<^verbatim>\<open>/work/app/pom.xml\<close> starts with the authorization,
  and the call of the analysis service is the fifth event.
\<close>

theorem authorization_precedes_analysis_witness:
  "fsPath pomUri = Str ''/work/app/pom.xml''
   \<and> basename exampleEnvironment ''/work/app/pom.xml'' \<in> set supportedFiles
   \<and> authorized_before_analysis
        (events_since emptyState (snd (generateRHDAReport exampleEnvironment (Obj 1) pomUri emptyState)))
   \<and> take 5 (events_since emptyState (snd (generateRHDAReport exampleEnvironment (Obj 1) pomUri emptyState))) =
       [AuthorizeRHDA (Obj 1), CreateOrShowWebviewPanel, WithProgress,
        Report WIN_ANALYZING_DEPENDENCIES,
        StackAnalysisService (Str ''/work/app/pom.xml'') (stackAnalysisOptions exampleConfig)]"
proof -
  have p: "fsPath pomUri = Str ''/work/app/pom.xml''"
    by (simp add: pomUri_def)
  have n: "basename exampleEnvironment ''/work/app/pom.xml'' \<in> set supportedFiles"
    by (simp add: exampleEnvironment_def posix_basename_def supportedFiles_def)
  have "take 5 (events_since emptyState (snd (generateRHDAReport exampleEnvironment (Obj 1) pomUri emptyState))) =
       [AuthorizeRHDA (Obj 1), CreateOrShowWebviewPanel, WithProgress,
        Report WIN_ANALYZING_DEPENDENCIES,
        StackAnalysisService (Str ''/work/app/pom.xml'') (stackAnalysisOptions exampleConfig)]"
    by (simp add: run_defs)
  with authorization_precedes_analysis [OF p n, where ctx = "Obj 1" and s = emptyState] p n
  show ?thesis by simp
qed

subsection \<open>Writing the report\<close>



subsection \<open>A throw before the service has answered\<close>

text \<open>
  Claim C10. If an error is thrown inside the progress scope before the service has
  returned its promise, either while the option bag is built or by the call of the
  service itself, the progress reports the "analyzing" message a second time and never
  the failure message, and the promise of \<^verbatim>\<open>executeStackAnalysis\<close> is rejected with the error
  that was thrown. When the option bag cannot be built the service is not called. These
  are the two places of the scope where the model lets an error be thrown (\<^verbatim>\<open>p.report\<close> is
  taken to return normally).
\<close>

theorem synchronous_throw_reports_analyzing_again:
  assumes "optionsFault env = Some err
           \<or> optionsFault env = None
             \<and> stackAnalysisService env m (stackAnalysisOptions (globalConfig env)) = Throws err"
  shows "fst (executeStackAnalysis env m s) = Rejected err
       \<and> reports (events_since s (snd (executeStackAnalysis env m s))) =
           [WIN_ANALYZING_DEPENDENCIES, WIN_ANALYZING_DEPENDENCIES]
       \<and> WIN_FAILURE_DEPENDENCY_ANALYSIS
           \<notin> set (reports (events_since s (snd (executeStackAnalysis env m s))))
       \<and> (optionsFault env = Some err \<longrightarrow>
            analysis_calls (events_since s (snd (executeStackAnalysis env m s))) = [])"
  using assms
proof
  assume fault: "optionsFault env = Some err"
  from executeStackAnalysis_options_fault [OF this, of m s] fault show ?thesis
    by (simp add: events_since_def)
next
  assume "optionsFault env = None
             \<and> stackAnalysisService env m (stackAnalysisOptions (globalConfig env)) = Throws err"
  then have nf: "optionsFault env = None"
    and t: "stackAnalysisService env m (stackAnalysisOptions (globalConfig env)) = Throws err"
    by simp_all
  from executeStackAnalysis_throws [OF nf t, of s] nf show ?thesis
    by (simp add: events_since_def)
qed

text \<open>
  Claim C10, on examples: building the option bag throws \<open>Obj 6\<close>, and the promise is
  rejected with \<open>Obj 6\<close> after "analyzing" was reported twice, the service not being called;
  the call of the service throws \<open>Obj 4\<close>, and the promise is rejected with \<open>Obj 4\<close> after
  "analyzing" was reported twice.
\<close>

theorem synchronous_throw_reports_analyzing_again_witness:
  "optionsFault throwingConfigEnvironment = Some (Obj 6)
   \<and> fst (executeStackAnalysis throwingConfigEnvironment (Str ''/work/app/pom.xml'') emptyState) =
       Rejected (Obj 6)
   \<and> events_since emptyState
        (snd (executeStackAnalysis throwingConfigEnvironment (Str ''/work/app/pom.xml'') emptyState)) =
       [WithProgress, Report WIN_ANALYZING_DEPENDENCIES, Report WIN_ANALYZING_DEPENDENCIES]
   \<and> optionsFault throwingAnalysisEnvironment = None
   \<and> stackAnalysisService throwingAnalysisEnvironment (Str ''/work/app/pom.xml'')
        (stackAnalysisOptions (globalConfig throwingAnalysisEnvironment)) = Throws (Obj 4)
   \<and> fst (executeStackAnalysis throwingAnalysisEnvironment (Str ''/work/app/pom.xml'') emptyState) =
       Rejected (Obj 4)
   \<and> reports (events_since emptyState
        (snd (executeStackAnalysis throwingAnalysisEnvironment (Str ''/work/app/pom.xml'') emptyState))) =
       [WIN_ANALYZING_DEPENDENCIES, WIN_ANALYZING_DEPENDENCIES]"
proof -
  have c: "optionsFault throwingConfigEnvironment = Some (Obj 6)"
    by (simp add: throwingConfigEnvironment_def)
  have n: "optionsFault throwingAnalysisEnvironment = None"
    by (simp add: throwingAnalysisEnvironment_def exampleEnvironment_def)
  have t: "stackAnalysisService throwingAnalysisEnvironment (Str ''/work/app/pom.xml'')
      (stackAnalysisOptions (globalConfig throwingAnalysisEnvironment)) = Throws (Obj 4)"
    by (simp add: throwingAnalysisEnvironment_def)
  have e: "events_since emptyState
        (snd (executeStackAnalysis throwingConfigEnvironment (Str ''/work/app/pom.xml'') emptyState)) =
       [WithProgress, Report WIN_ANALYZING_DEPENDENCIES, Report WIN_ANALYZING_DEPENDENCIES]"
    by (simp add: run_defs)
  from synchronous_throw_reports_analyzing_again
         [where env = throwingConfigEnvironment and err = "Obj 6"
            and m = "Str ''/work/app/pom.xml''" and s = emptyState]
       synchronous_throw_reports_analyzing_again
         [where env = throwingAnalysisEnvironment and err = "Obj 4"
            and m = "Str ''/work/app/pom.xml''" and s = emptyState]
       c n t e
  show ?thesis by simp
qed

subsection \<open>A successful analysis\<close>

text \<open>
  Claim C1, as the spec states it, fails: the panel is updated only if a panel is current
  when the report has been written (the guard of \<^verbatim>\<open>updateWebviewPanel\<close>). In the run below
  the user closes the report while the analysis service is working; the service answers
  \<^verbatim>\<open>"R"\<close>, the promise of \<^verbatim>\<open>generateRHDAReport\<close> is fulfilled, and no panel has received an
  update, where the claim says that exactly one update is received.
\<close>

theorem closed_report_gets_no_payload_counterexample:
  "fst (generateRHDAReport reportClosedEnvironment (Obj 1) pomUri emptyState) = Fulfilled ()
   \<and> analysis_calls
        (events_since emptyState (snd (generateRHDAReport reportClosedEnvironment (Obj 1) pomUri emptyState)))
       = [(Str ''/work/app/pom.xml'', stackAnalysisOptions exampleConfig)]
   \<and> stackAnalysisService reportClosedEnvironment (Str ''/work/app/pom.xml'')
        (stackAnalysisOptions exampleConfig) = Returns (Fulfilled (Str ''R''))
   \<and> panel_updates
        (events_since emptyState (snd (generateRHDAReport reportClosedEnvironment (Obj 1) pomUri emptyState)))
       = []"
  by (simp add: run_defs)

text \<open>
  Claim C1, amended. For every run of \<^verbatim>\<open>generateRHDAReport\<close> whose promise is fulfilled and
  in which the analysis service was called and has answered the payload \<open>R\<close>: the report
  file (at the configured or default path) holds exactly \<open>R\<close>, whatever it held before;
  and if a panel is current when the report has been written, that panel has received
  exactly one update, with \<open>R\<close>, and no other panel has received any; if no panel is
  current then, no update is made.
\<close>

theorem report_written_and_current_panel_updated:
  assumes run: "generateRHDAReport env ctx u s = (Fulfilled (), s')"
      and call: "(m, opts) \<in> set (analysis_calls (events_since s s'))"
      and resp: "stackAnalysisService env m opts = Returns (Fulfilled R)"
  shows "(\<exists>f. reportFilePath env = Str f \<and> disk s' f = Some (File R))
       \<and> panel_updates (events_since s s') =
           (case currentPanel s' of Some p \<Rightarrow> [(p, R)] | None \<Rightarrow> [])"
proof -
  from run have s': "s' = snd (generateRHDAReport env ctx u s)"
    and ok: "fst (generateRHDAReport env ctx u s) = Fulfilled ()" by simp_all
  note c = analysis_called [OF call [unfolded s']]
  from c(2) obtain v where auth: "authorizeRHDA env ctx = Fulfilled v" ..
  from resp c have srv:
    "stackAnalysisService env (fsPath u) (stackAnalysisOptions (globalConfig env)) =
       Returns (Fulfilled R)"
    by simp
  let ?t = "snd (triggerWebviewPanel env ctx s)"
  note gen = generateRHDAReport_supported [OF c(1) auth, of s]
  from ok have ex: "fst (executeStackAnalysis env (fsPath u) ?t) = Fulfilled ()"
    by (simp add: gen split: outcome.splits)
  with gen have "s' = snd (executeStackAnalysis env (fsPath u) ?t)" by (simp add: s')
  with executeStackAnalysis_fulfilled_disk [OF c(5) srv ex]
  have "\<exists>f. reportFilePath env = Str f \<and> disk s' f = Some (File R)" by simp
  moreover from generateRHDAReport_analysis [OF c(1) auth c(5), of s] ok
  have "panel_updates (events_since s s') =
          (case currentPanel s' of Some p \<Rightarrow> [(p, R)] | None \<Rightarrow> [])"
    by (auto simp add: srv s' split: option.splits)
  ultimately show ?thesis by simp
qed

text \<open>
  Claim C1, amended, on an example: the report stays open, the file holds \<^verbatim>\<open>"R"\<close> and
  the panel \<open>1\<close> has received the one update \<^verbatim>\<open>"R"\<close>.
\<close>

theorem report_written_and_current_panel_updated_witness:
  "generateRHDAReport exampleEnvironment (Obj 1) pomUri emptyState =
     (Fulfilled (), snd (generateRHDAReport exampleEnvironment (Obj 1) pomUri emptyState))
   \<and> (Str ''/work/app/pom.xml'', stackAnalysisOptions exampleConfig)
       \<in> set (analysis_calls
            (events_since emptyState (snd (generateRHDAReport exampleEnvironment (Obj 1) pomUri emptyState))))
   \<and> stackAnalysisService exampleEnvironment (Str ''/work/app/pom.xml'')
        (stackAnalysisOptions exampleConfig) = Returns (Fulfilled (Str ''R''))
   \<and> disk (snd (generateRHDAReport exampleEnvironment (Obj 1) pomUri emptyState))
        ''/tmp/rhda/out/report.html'' = Some (File (Str ''R''))
   \<and> panel_updates
        (events_since emptyState (snd (generateRHDAReport exampleEnvironment (Obj 1) pomUri emptyState)))
       = [(1, Str ''R'')]"
proof -
  let ?s' = "snd (generateRHDAReport exampleEnvironment (Obj 1) pomUri emptyState)"
  have run: "generateRHDAReport exampleEnvironment (Obj 1) pomUri emptyState = (Fulfilled (), ?s')"
    by (simp add: run_defs prod_eq_iff)
  have call: "(Str ''/work/app/pom.xml'', stackAnalysisOptions exampleConfig)
       \<in> set (analysis_calls (events_since emptyState ?s'))"
    by (simp add: run_defs)
  have resp: "stackAnalysisService exampleEnvironment (Str ''/work/app/pom.xml'')
        (stackAnalysisOptions exampleConfig) = Returns (Fulfilled (Str ''R''))"
    by (simp add: exampleEnvironment_def)
  have panel: "currentPanel ?s' = Some 1" by (simp add: run_defs)
  have path: "reportFilePath exampleEnvironment = Str ''/tmp/rhda/out/report.html''"
    by (simp add: run_defs)
  from report_written_and_current_panel_updated [OF run call resp] run call resp panel path
  show ?thesis by simp
qed

subsection \<open>A failed analysis\<close>

text \<open>
  Claim C2, as the spec states it, fails for the same reason as C1: in the run below the
  analysis service rejects with the error \<open>Obj 2\<close> after the user has closed the report;
  the promise of \<^verbatim>\<open>generateRHDAReport\<close> is rejected with \<open>Obj 2\<close>, and no panel has received
  an update, where the claim says that exactly one update \<^verbatim>\<open>"error"\<close> is made.
\<close>

theorem closed_report_gets_no_error_counterexample:
  "stackAnalysisService (failingAnalysisEnvironment\<lparr>whileAnalyzing := (\<lambda>panel. None)\<rparr>)
      (Str ''/work/app/pom.xml'') (stackAnalysisOptions exampleConfig) = Returns (Rejected (Obj 2))
   \<and> analysis_calls
        (events_since emptyState
          (snd (generateRHDAReport (failingAnalysisEnvironment\<lparr>whileAnalyzing := (\<lambda>panel. None)\<rparr>)
                 (Obj 1) pomUri emptyState)))
       = [(Str ''/work/app/pom.xml'', stackAnalysisOptions exampleConfig)]
   \<and> fst (generateRHDAReport (failingAnalysisEnvironment\<lparr>whileAnalyzing := (\<lambda>panel. None)\<rparr>)
            (Obj 1) pomUri emptyState) = Rejected (Obj 2)
   \<and> panel_updates
        (events_since emptyState
          (snd (generateRHDAReport (failingAnalysisEnvironment\<lparr>whileAnalyzing := (\<lambda>panel. None)\<rparr>)
                 (Obj 1) pomUri emptyState)))
       = []"
  by (simp add: run_defs)

text \<open>
  Claim C2, amended. For every run of \<^verbatim>\<open>generateRHDAReport\<close> in which the analysis service
  was called and has rejected with the error \<open>E\<close>: the promise of \<^verbatim>\<open>generateRHDAReport\<close> is
  rejected with \<open>E\<close> itself (the same value, not a wrapper); and if a panel is current
  when the rejection arrives, that panel has received exactly one update, the string
  \<^verbatim>\<open>"error"\<close>, and no other panel has received any; if no panel is current then, no update
  is made.
\<close>

theorem analysis_rejection_reaches_current_panel_and_caller:
  assumes run: "generateRHDAReport env ctx u s = (r, s')"
      and call: "(m, opts) \<in> set (analysis_calls (events_since s s'))"
      and rej: "stackAnalysisService env m opts = Returns (Rejected E)"
  shows "r = Rejected E
       \<and> panel_updates (events_since s s') =
           (case currentPanel s' of Some p \<Rightarrow> [(p, Str ''error'')] | None \<Rightarrow> [])"
proof -
  from run have s': "s' = snd (generateRHDAReport env ctx u s)"
    and r: "r = fst (generateRHDAReport env ctx u s)" by simp_all
  note c = analysis_called [OF call [unfolded s']]
  from c(2) obtain v where auth: "authorizeRHDA env ctx = Fulfilled v" ..
  from rej c have srv:
    "stackAnalysisService env (fsPath u) (stackAnalysisOptions (globalConfig env)) =
       Returns (Rejected E)"
    by simp
  let ?t = "snd (triggerWebviewPanel env ctx s)"
  from executeStackAnalysis_rejected(1) [OF c(5) srv, of ?t]
  have "r = Rejected E"
    by (simp add: r generateRHDAReport_supported [OF c(1) auth, of s])
  moreover from generateRHDAReport_analysis [OF c(1) auth c(5), of s]
  have "panel_updates (events_since s s') =
          (case currentPanel s' of Some p \<Rightarrow> [(p, Str ''error'')] | None \<Rightarrow> [])"
    by (auto simp add: srv s' split: option.splits)
  ultimately show ?thesis by simp
qed

text \<open>
  Claim C2, amended, on an example: the report stays open, the service rejects with
  \<open>Obj 2\<close>; the promise is rejected with \<open>Obj 2\<close> and the panel \<open>1\<close> has received the one
  update \<^verbatim>\<open>"error"\<close>.
\<close>

theorem analysis_rejection_reaches_current_panel_and_caller_witness:
  "generateRHDAReport failingAnalysisEnvironment (Obj 1) pomUri emptyState =
     (Rejected (Obj 2), snd (generateRHDAReport failingAnalysisEnvironment (Obj 1) pomUri emptyState))
   \<and> (Str ''/work/app/pom.xml'', stackAnalysisOptions exampleConfig)
       \<in> set (analysis_calls
            (events_since emptyState
              (snd (generateRHDAReport failingAnalysisEnvironment (Obj 1) pomUri emptyState))))
   \<and> stackAnalysisService failingAnalysisEnvironment (Str ''/work/app/pom.xml'')
        (stackAnalysisOptions exampleConfig) = Returns (Rejected (Obj 2))
   \<and> panel_updates
        (events_since emptyState
          (snd (generateRHDAReport failingAnalysisEnvironment (Obj 1) pomUri emptyState)))
       = [(1, Str ''error'')]"
proof -
  let ?s' = "snd (generateRHDAReport failingAnalysisEnvironment (Obj 1) pomUri emptyState)"
  have run: "generateRHDAReport failingAnalysisEnvironment (Obj 1) pomUri emptyState =
               (fst (generateRHDAReport failingAnalysisEnvironment (Obj 1) pomUri emptyState), ?s')"
    by simp
  have call: "(Str ''/work/app/pom.xml'', stackAnalysisOptions exampleConfig)
       \<in> set (analysis_calls (events_since emptyState ?s'))"
    by (simp add: run_defs)
  have rej: "stackAnalysisService failingAnalysisEnvironment (Str ''/work/app/pom.xml'')
        (stackAnalysisOptions exampleConfig) = Returns (Rejected (Obj 2))"
    by (simp add: failingAnalysisEnvironment_def)
  have panel: "currentPanel ?s' = Some 1" by (simp add: run_defs)
  from analysis_rejection_reaches_current_panel_and_caller [OF run call rej] call rej panel
  show ?thesis by (simp add: prod_eq_iff)
qed

subsection \<open>A failed write\<close>

text \<open>
  Claim C8. In a run of \<^verbatim>\<open>generateRHDAReport\<close> in which the analysis service was called and
  has answered the payload \<open>R\<close>:
  \<^item> if writing \<open>R\<close> is rejected with \<open>err\<close> (the outcome of \<^verbatim>\<open>writeReportToFile\<close> depends on
    the disk only, which the run has not touched before), the promise of
    \<^verbatim>\<open>generateRHDAReport\<close> is rejected with \<open>err\<close>, and the only update that a panel can have
    received in the whole run is the string \<^verbatim>\<open>"error"\<close>: the panel that is current at the end
    has received it once, and nothing else has been sent to any panel, so the payload has
    not reached a panel;
  \<^item> on the successful path, no panel is updated before \<^verbatim>\<open>fs.writeFile\<close> was called.
\<close>

theorem write_failure_shows_only_error:
  assumes run: "generateRHDAReport env ctx u s = (r, s')"
      and call: "(m, opts) \<in> set (analysis_calls (events_since s s'))"
      and resp: "stackAnalysisService env m opts = Returns (Fulfilled R)"
  shows "(fst (writeReportToFile env R s) = Rejected err \<longrightarrow>
            r = Rejected err
          \<and> panel_updates (events_since s s') =
              (case currentPanel s' of Some p \<Rightarrow> [(p, Str ''error'')] | None \<Rightarrow> [])
          \<and> (\<forall>x \<in> set (panel_updates (events_since s s')). snd x = Str ''error'')
          \<and> length (panel_updates (events_since s s')) \<le> 1)
       \<and> (r = Fulfilled () \<longrightarrow> update_only_after_write (events_since s s'))"
proof -
  from run have s': "s' = snd (generateRHDAReport env ctx u s)"
    and r: "r = fst (generateRHDAReport env ctx u s)" by simp_all
  note c = analysis_called [OF call [unfolded s']]
  from c(2) obtain v where auth: "authorizeRHDA env ctx = Fulfilled v" ..
  from resp c have srv:
    "stackAnalysisService env (fsPath u) (stackAnalysisOptions (globalConfig env)) =
       Returns (Fulfilled R)"
    by simp
  let ?t = "snd (triggerWebviewPanel env ctx s)"
  have failure: "r = Rejected err
          \<and> panel_updates (events_since s s') =
              (case currentPanel s' of Some p \<Rightarrow> [(p, Str ''error'')] | None \<Rightarrow> [])
          \<and> (\<forall>x \<in> set (panel_updates (events_since s s')). snd x = Str ''error'')
          \<and> length (panel_updates (events_since s s')) \<le> 1"
    if w: "fst (writeReportToFile env R s) = Rejected err"
  proof -
    have "fst (writeReportToFile env R ?t) = fst (writeReportToFile env R s)"
      by (rule writeReportToFile_disk_only) (rule triggerWebviewPanel_fulfilled(3) [OF auth])
    with w executeStackAnalysis_fulfilled_fst [OF c(5) srv, of ?t]
    have "fst (executeStackAnalysis env (fsPath u) ?t) = Rejected err" by simp
    then have rej: "r = Rejected err"
      by (simp add: r generateRHDAReport_supported [OF c(1) auth, of s])
    with r generateRHDAReport_analysis [OF c(1) auth c(5), of s]
    have upd: "panel_updates (events_since s s') =
          (case currentPanel s' of Some p \<Rightarrow> [(p, Str ''error'')] | None \<Rightarrow> [])"
      by (auto simp add: srv s' split: option.splits)
    from rej upd show ?thesis by (simp split: option.splits)
  qed
  have success: "update_only_after_write (events_since s s')" if "r = Fulfilled ()"
    using generateRHDAReport_success_order [OF c(1) auth c(5) srv, of s] that r s' by simp
  from failure success show ?thesis by blast
qed

text \<open>
  Claim C8, on examples: when \<^verbatim>\<open>fs.writeFile\<close> fails with \<open>Obj 3\<close>, the promise of
  \<^verbatim>\<open>generateRHDAReport\<close> is rejected with \<open>Obj 3\<close> and the panel \<open>1\<close> has received \<^verbatim>\<open>"error"\<close>
  and nothing else; in the successful run the panel is updated after the write.
\<close>

theorem write_failure_shows_only_error_witness:
  "(Str ''/work/app/pom.xml'', stackAnalysisOptions exampleConfig)
       \<in> set (analysis_calls
            (events_since emptyState
              (snd (generateRHDAReport failingWriteEnvironment (Obj 1) pomUri emptyState))))
   \<and> stackAnalysisService failingWriteEnvironment (Str ''/work/app/pom.xml'')
        (stackAnalysisOptions exampleConfig) = Returns (Fulfilled (Str ''R''))
   \<and> fst (writeReportToFile failingWriteEnvironment (Str ''R'') emptyState) = Rejected (Obj 3)
   \<and> fst (generateRHDAReport failingWriteEnvironment (Obj 1) pomUri emptyState) = Rejected (Obj 3)
   \<and> panel_updates
        (events_since emptyState
          (snd (generateRHDAReport failingWriteEnvironment (Obj 1) pomUri emptyState)))
       = [(1, Str ''error'')]
   \<and> fst (generateRHDAReport exampleEnvironment (Obj 1) pomUri emptyState) = Fulfilled ()
   \<and> update_only_after_write
        (events_since emptyState (snd (generateRHDAReport exampleEnvironment (Obj 1) pomUri emptyState)))"
proof -
  let ?g = "generateRHDAReport failingWriteEnvironment (Obj 1) pomUri emptyState"
  let ?h = "generateRHDAReport exampleEnvironment (Obj 1) pomUri emptyState"
  have run: "?g = (fst ?g, snd ?g)" and run': "?h = (fst ?h, snd ?h)" by simp_all
  have call: "(Str ''/work/app/pom.xml'', stackAnalysisOptions exampleConfig)
       \<in> set (analysis_calls (events_since emptyState (snd ?g)))"
    and call': "(Str ''/work/app/pom.xml'', stackAnalysisOptions exampleConfig)
       \<in> set (analysis_calls (events_since emptyState (snd ?h)))"
    by (simp_all add: run_defs)
  have resp: "stackAnalysisService failingWriteEnvironment (Str ''/work/app/pom.xml'')
        (stackAnalysisOptions exampleConfig) = Returns (Fulfilled (Str ''R''))"
    and resp': "stackAnalysisService exampleEnvironment (Str ''/work/app/pom.xml'')
        (stackAnalysisOptions exampleConfig) = Returns (Fulfilled (Str ''R''))"
    by (simp_all add: failingWriteEnvironment_def exampleEnvironment_def)
  have w: "fst (writeReportToFile failingWriteEnvironment (Str ''R'') emptyState) = Rejected (Obj 3)"
    by (simp add: run_defs)
  have panel: "currentPanel (snd ?g) = Some 1" by (simp add: run_defs)
  have ok: "fst ?h = Fulfilled ()" by (simp add: run_defs)
  from write_failure_shows_only_error [OF run call resp, where err = "Obj 3"]
       write_failure_shows_only_error [OF run' call' resp', where err = "Obj 3"]
       call resp w panel ok
  show ?thesis by simp
qed

end
